theory Spec2Isabelle
  imports Complex_Main "HOL-Library.Sublist"
begin

section \<open>Room reservation service: the request layer and the monitoring loop of main.py\<close>

text \<open>
  An instant (a time-zone-aware \<^verbatim>\<open>datetime\<close> in JST) is an \<^typ>\<open>int\<close>: the number of
  microseconds, the resolution of Python's \<^verbatim>\<open>datetime\<close>, since a midnight of the JST
  calendar. A \<^verbatim>\<open>timedelta\<close> is a difference of two instants.
\<close>

type_synonym instant = int

definition us_per_minute :: int where
  "us_per_minute = 60000000"

definition us_per_day :: int where
  "us_per_day = 86400000000"

subsection \<open>Reservation Store\<close>

datatype reservation_status = Confirmed | Cancelled | Completed | NoShow

record reservation =
  reservation_id :: nat
  room_id :: string
  user_id :: string
  start_time :: instant
  end_time :: instant
  status :: reservation_status

datatype store_error = InvalidRange | Overlap

text \<open>
  The store keeps its reservations in insertion order, the width of the buffer, and the
  counter from which the next fresh reservation id is taken.
\<close>

record reservation_store =
  buffer :: int
  reservations :: "reservation list"
  next_id :: nat

text \<open>
  Modelled from the spec: the constructor of \<^verbatim>\<open>InMemoryReservationRepository\<close>
  (module \<^verbatim>\<open>Repository.reservation_repository\<close>, not among the sources), called in main.py
  as \<^verbatim>\<open>InMemoryReservationRepository(buffer_minutes=5)\<close>: an empty store with the
  configured buffer.
\<close>

definition InMemoryReservationRepository :: "int \<Rightarrow> reservation_store" where
  "InMemoryReservationRepository buffer_minutes =
     \<lparr>buffer = buffer_minutes * us_per_minute, reservations = [], next_id = 0\<rparr>"

definition reservation_repo :: reservation_store where
  "reservation_repo = InMemoryReservationRepository 5"

text \<open>
  Modelled from the spec: the test of \<^verbatim>\<open>create\<close> for one existing reservation, which is
  not among the sources. The spec's words are: an existing reservation, ``expanded by a
  configured buffer on each side, intersects \<^verbatim>\<open>[start, end]\<close>''. Both intervals are closed.
\<close>

definition intersects_buffered :: "int \<Rightarrow> reservation \<Rightarrow> instant \<Rightarrow> instant \<Rightarrow> bool" where
  "intersects_buffered b ex start end' \<longleftrightarrow>
     start_time ex - b \<le> end' \<and> start \<le> end_time ex + b"

text \<open>
  Modelled from the spec: \<^verbatim>\<open>create_reservation\<close> of the reservation repository, which is
  not among the sources. It ``fails with InvalidRange if end <= start; fails with Overlap
  if any existing Confirmed reservation for room_id, expanded by a configured buffer on
  each side, intersects [start, end]. On success, stores a new reservation with status
  Confirmed and a freshly generated unique id.'' A failure raises before anything is
  stored, so only a success returns a store.
\<close>

definition create_reservation ::
  "reservation_store \<Rightarrow> string \<Rightarrow> string \<Rightarrow> instant \<Rightarrow> instant
     \<Rightarrow> store_error + (reservation \<times> reservation_store)" where
  "create_reservation repo room user start end' =
     (if end' \<le> start then Inl InvalidRange
      else if list_ex (\<lambda>ex. room_id ex = room \<and> status ex = Confirmed
                 \<and> intersects_buffered (buffer repo) ex start end') (reservations repo)
      then Inl Overlap
      else
        let res = \<lparr>reservation_id = next_id repo, room_id = room, user_id = user,
                   start_time = start, end_time = end', status = Confirmed\<rparr>
        in Inr (res, repo\<lparr>reservations := reservations repo @ [res],
                          next_id := Suc (next_id repo)\<rparr>))"

text \<open>
  Modelled from the spec: \<^verbatim>\<open>cancel_reservation\<close> of the reservation repository, which is
  not among the sources. It ``sets status to Cancelled if the reservation exists and is
  not already Cancelled/Completed; returns whether a change occurred; unknown id is not an
  error, it reports not found (false)''.
\<close>

definition cancel_reservation :: "reservation_store \<Rightarrow> nat \<Rightarrow> bool \<times> reservation_store" where
  "cancel_reservation repo rid =
     (case find (\<lambda>r. reservation_id r = rid) (reservations repo) of
        None \<Rightarrow> (False, repo)
      | Some r \<Rightarrow>
          if status r = Cancelled \<or> status r = Completed then (False, repo)
          else (True, repo\<lparr>reservations :=
                  map (\<lambda>r. if reservation_id r = rid then r\<lparr>status := Cancelled\<rparr> else r)
                      (reservations repo)\<rparr>))"

text \<open>
  A sequence of create and cancel operations on the store. An operation that fails leaves
  the store as it was.
\<close>

datatype store_op = Create string string instant instant | Cancel nat

fun apply_store_op :: "reservation_store \<Rightarrow> store_op \<Rightarrow> reservation_store" where
  "apply_store_op repo (Create room user start end') =
     (case create_reservation repo room user start end' of
        Inl e \<Rightarrow> repo
      | Inr (res, repo') \<Rightarrow> repo')"
| "apply_store_op repo (Cancel rid) = snd (cancel_reservation repo rid)"

definition apply_store_ops :: "reservation_store \<Rightarrow> store_op list \<Rightarrow> reservation_store" where
  "apply_store_ops repo ops = foldl apply_store_op repo ops"

text \<open>
  Two reservations are in conflict when both are Confirmed, for the same room, and one of
  them, expanded by the buffer on both sides, meets the other as it was given.
\<close>

definition in_conflict :: "int \<Rightarrow> reservation \<Rightarrow> reservation \<Rightarrow> bool" where
  "in_conflict b r1 r2 \<longleftrightarrow>
     status r1 = Confirmed \<and> status r2 = Confirmed \<and> room_id r1 = room_id r2
     \<and> intersects_buffered b r1 (start_time r2) (end_time r2)"

fun conflict_free :: "int \<Rightarrow> reservation list \<Rightarrow> bool" where
  "conflict_free b [] = True"
| "conflict_free b (r # rs) = ((\<forall>r' \<in> set rs. \<not> in_conflict b r r') \<and> conflict_free b rs)"

text \<open>
  The reading in which each of the two intervals is expanded by the buffer on both sides
  before they are compared.
\<close>

definition in_conflict_both_expanded :: "int \<Rightarrow> reservation \<Rightarrow> reservation \<Rightarrow> bool" where
  "in_conflict_both_expanded b r1 r2 \<longleftrightarrow>
     status r1 = Confirmed \<and> status r2 = Confirmed \<and> room_id r1 = room_id r2
     \<and> start_time r1 - b \<le> end_time r2 + b \<and> start_time r2 - b \<le> end_time r1 + b"

fun conflict_free_both_expanded :: "int \<Rightarrow> reservation list \<Rightarrow> bool" where
  "conflict_free_both_expanded b [] = True"
| "conflict_free_both_expanded b (r # rs) =
     ((\<forall>r' \<in> set rs. \<not> in_conflict_both_expanded b r r') \<and> conflict_free_both_expanded b rs)"

subsection \<open>Python values and exceptions\<close>

text \<open>
  A value decoded from a JSON body by \<^verbatim>\<open>request.get_json\<close> (Python's \<^verbatim>\<open>json.loads\<close>,
  which reads a number too large for a double, or the literal \<^verbatim>\<open>Infinity\<close>, as a float
  infinity). A finite float is the rational number it denotes.
\<close>

datatype pyfloat = Finite rat | PosInf | NegInf | NaN

datatype jval =
    JNull
  | JBool bool
  | JInt int
  | JFloat pyfloat
  | JStr string
  | JArr "jval list"
  | JObj "(string \<times> jval) list"

text \<open>
  The exceptions raised by the code modelled here. Every one of them is an instance of
  Python's \<^verbatim>\<open>Exception\<close>, the class that the handlers written \<^verbatim>\<open>except Exception\<close> catch.
\<close>

datatype exn =
    ValueError string
  | KeyError string
  | TypeError
  | OverflowError
  | AttributeError
  | OtherException string

text \<open>Python's truth value of a decoded JSON value, as used by \<^verbatim>\<open>get_json(...) or {}\<close>.\<close>

fun py_truthy :: "jval \<Rightarrow> bool" where
  "py_truthy JNull = False"
| "py_truthy (JBool b) = b"
| "py_truthy (JInt n) = (n \<noteq> 0)"
| "py_truthy (JFloat (Finite q)) = (q \<noteq> 0)"
| "py_truthy (JFloat f) = True"
| "py_truthy (JStr s) = (s \<noteq> [])"
| "py_truthy (JArr xs) = (xs \<noteq> [])"
| "py_truthy (JObj kvs) = (kvs \<noteq> [])"

definition get_json_or_empty :: "jval \<Rightarrow> jval" where
  "get_json_or_empty body = (if py_truthy body then body else JObj [])"

text \<open>
  \<^verbatim>\<open>data[key]\<close> for a string key: a dict raises KeyError for a missing key, every other
  kind of value raises TypeError.
\<close>

fun subscript :: "jval \<Rightarrow> string \<Rightarrow> exn + jval" where
  "subscript (JObj kvs) key =
     (case map_of kvs key of None \<Rightarrow> Inl (KeyError key) | Some v \<Rightarrow> Inr v)"
| "subscript v key = Inl TypeError"

text \<open>
  Python's built-in \<^verbatim>\<open>int(v)\<close>. Its reading of a string is the parameter \<open>int_of_str\<close>
  (\<open>None\<close> where \<^verbatim>\<open>int\<close> raises ValueError); a finite float is truncated towards zero,
  a NaN raises ValueError and an infinity raises OverflowError.
\<close>

fun py_int :: "(string \<Rightarrow> int option) \<Rightarrow> jval \<Rightarrow> exn + int" where
  "py_int int_of_str JNull = Inl TypeError"
| "py_int int_of_str (JBool b) = Inr (if b then 1 else 0)"
| "py_int int_of_str (JInt n) = Inr n"
| "py_int int_of_str (JFloat (Finite q)) = Inr (if 0 \<le> q then \<lfloor>q\<rfloor> else \<lceil>q\<rceil>)"
| "py_int int_of_str (JFloat NaN) = Inl (ValueError ''cannot convert float NaN to integer'')"
| "py_int int_of_str (JFloat f) = Inl OverflowError"
| "py_int int_of_str (JStr s) =
     (case int_of_str s of
        None \<Rightarrow> Inl (ValueError ''invalid literal for int()'')
      | Some n \<Rightarrow> Inr n)"
| "py_int int_of_str (JArr xs) = Inl TypeError"
| "py_int int_of_str (JObj kvs) = Inl TypeError"

subsection \<open>Configuration and process-wide state of main.py\<close>

text \<open>
  The three policy constants are read from the environment when the module is loaded;
  \<open>default_policy\<close> holds the values used when the variables are not set.
\<close>

record policy =
  MIN_RESERVE_MINUTES :: int
  MAX_RESERVE_MINUTES :: int
  MAX_RESERVE_DAYS_AHEAD :: int

definition default_policy :: policy where
  "default_policy =
     \<lparr>MIN_RESERVE_MINUTES = 15, MAX_RESERVE_MINUTES = 120, MAX_RESERVE_DAYS_AHEAD = 7\<rparr>"

definition ROOM_ID :: string where
  "ROOM_ID = ''Room-A''"

text \<open>The dict \<^verbatim>\<open>system_status\<close>: one field for each of its seven keys.\<close>

record system_status =
  ss_timestamp :: jval
  ss_room_id :: string
  ss_room_state :: jval
  ss_people_count :: int
  ss_is_used :: bool
  ss_reservation_id :: jval
  ss_alert :: jval

definition system_status_init :: system_status where
  "system_status_init =
     \<lparr>ss_timestamp = JNull, ss_room_id = ROOM_ID, ss_room_state = JStr ''IDLE'',
      ss_people_count = 0, ss_is_used = False, ss_reservation_id = JNull, ss_alert = JNull\<rparr>"

text \<open>The four timing attributes of \<^verbatim>\<open>room_manager\<close> that main.py reads and assigns.\<close>

record room_manager =
  grace_period_sec :: int
  arrival_window_before_sec :: int
  arrival_window_after_sec :: int
  cleanup_margin_sec :: int

subsection \<open>Responses\<close>

text \<open>
  A response is a status code and a body. The bodies are the JSON objects that the
  handlers build; the four messages written in Japanese in the source are constructors
  of their own (\<open>ErrorPastTime\<close>, \<open>ErrorTooShort\<close>, \<open>ErrorTooLong\<close>, \<open>ErrorTooFarAhead\<close>, the
  last three with the policy constant that the message quotes). An exception that leaves
  a handler is answered by Flask with status 500.
\<close>

datatype body =
    ErrorMessage string
  | ErrorPastTime
  | ErrorTooShort int
  | ErrorTooLong int
  | ErrorTooFarAhead int
  | ErrorBanned jval jval jval jval
  | ErrorStore store_error
  | ReservationJson reservation
  | CancelledJson nat
  | StateParamsJson int int int int
  | StatusJson system_status
  | Redirect string
  | InternalServerError exn

type_synonym response = "nat \<times> body"

subsection \<open>POST /api/reservations and POST /debug/reservations\<close>

text \<open>
  The keys of the JSON body that the two handlers read with \<^verbatim>\<open>data.get\<close>: \<open>None\<close> is a
  key that is absent, \<open>Some s\<close> a key whose value is the string \<open>s\<close>.
\<close>

record reservation_request =
  rq_user_id :: "string option"
  rq_room_id :: "string option"
  rq_date :: "string option"
  rq_start_time :: "string option"
  rq_end_time :: "string option"

text \<open>\<^verbatim>\<open>not v\<close> for the result of \<^verbatim>\<open>data.get\<close>: the key is absent or its string is empty.\<close>

definition falsy :: "string option \<Rightarrow> bool" where
  "falsy v \<longleftrightarrow> v = None \<or> v = Some []"

text \<open>The dict returned by \<^verbatim>\<open>penalty_service.get_summary\<close>.\<close>

record penalty_summary =
  points :: jval
  threshold :: jval
  is_banned :: bool
  ban_until :: jval
  window_days :: jval

text \<open>\<^verbatim>\<open>dt.date()\<close>: the calendar day of an instant.\<close>

definition date_of :: "instant \<Rightarrow> int" where
  "date_of t = t div us_per_day"

text \<open>
  \<^verbatim>\<open>(end_dt - start_dt).total_seconds() / 60.0\<close>, in exact arithmetic.
\<close>

definition duration_minutes :: "instant \<Rightarrow> instant \<Rightarrow> rat" where
  "duration_minutes start_dt end_dt = of_int (end_dt - start_dt) / 1000000 / 60"

text \<open>
  The handler of POST /api/reservations. Its parameters stand for what the modules that
  are not among the sources supply: \<open>get_summary\<close> for \<^verbatim>\<open>penalty_service.get_summary\<close>,
  \<open>parse_jst_datetime\<close> for the function of that name in \<^verbatim>\<open>time_utils\<close> (\<open>Inl\<close> where it
  raises), and \<open>now\<close> for the value that \<^verbatim>\<open>now_jst()\<close> returns in this request. The handler
  returns the response together with the store after the request. Where a field is read
  with \<open>the\<close>, the test before it has excluded \<open>None\<close>.
\<close>

definition api_create_reservation ::
  "policy \<Rightarrow> (string \<Rightarrow> instant \<Rightarrow> penalty_summary) \<Rightarrow> (string \<Rightarrow> exn + instant)
     \<Rightarrow> instant \<Rightarrow> reservation_request \<Rightarrow> reservation_store
     \<Rightarrow> response \<times> reservation_store" where
  "api_create_reservation pol get_summary parse_jst_datetime now data repo =
     (if falsy (rq_user_id data) then ((400, ErrorMessage ''user_id is required''), repo)
      else
        let user = the (rq_user_id data);
            summary = get_summary user now
        in
        if is_banned summary
        then ((403, ErrorBanned (points summary) (threshold summary) (ban_until summary)
                      (window_days summary)), repo)
        else
          let room = (case rq_room_id data of None \<Rightarrow> ROOM_ID | Some r \<Rightarrow> r) in
          if falsy (rq_date data) \<or> falsy (rq_start_time data) \<or> falsy (rq_end_time data)
          then ((400, ErrorMessage ''date, start_time, end_time are required''), repo)
          else
            let date_str = the (rq_date data);
                start_hm = the (rq_start_time data);
                end_hm = the (rq_end_time data);
                start_iso = date_str @ ''T'' @ start_hm @ '':00+09:00'';
                end_iso = date_str @ ''T'' @ end_hm @ '':00+09:00''
            in
            case parse_jst_datetime start_iso of
              Inl e \<Rightarrow> ((400, ErrorMessage ''invalid date/time format''), repo)
            | Inr start_dt \<Rightarrow>
            case parse_jst_datetime end_iso of
              Inl e \<Rightarrow> ((400, ErrorMessage ''invalid date/time format''), repo)
            | Inr end_dt \<Rightarrow>
              if end_dt \<le> start_dt
              then ((400, ErrorMessage ''end_time must be after start_time''), repo)
              else if start_dt < now then ((400, ErrorPastTime), repo)
              else if duration_minutes start_dt end_dt < of_int (MIN_RESERVE_MINUTES pol)
              then ((400, ErrorTooShort (MIN_RESERVE_MINUTES pol)), repo)
              else if duration_minutes start_dt end_dt > of_int (MAX_RESERVE_MINUTES pol)
              then ((400, ErrorTooLong (MAX_RESERVE_MINUTES pol)), repo)
              else
                let latest_allowed = now + MAX_RESERVE_DAYS_AHEAD pol * us_per_day in
                if date_of start_dt > date_of latest_allowed
                then ((400, ErrorTooFarAhead (MAX_RESERVE_DAYS_AHEAD pol)), repo)
                else
                  case create_reservation repo room user start_dt end_dt of
                    Inl e \<Rightarrow> ((400, ErrorStore e), repo)
                  | Inr (res, repo') \<Rightarrow> ((201, ReservationJson res), repo'))"

text \<open>
  The handler of POST /debug/reservations. It reads \<^verbatim>\<open>start_time\<close> and \<^verbatim>\<open>end_time\<close> as
  full timestamps and catches ValueError only: the store's two failures are ValueErrors,
  any other exception of the parser leaves the handler.
\<close>

definition debug_parse_failed :: "exn \<Rightarrow> response" where
  "debug_parse_failed e =
     (case e of ValueError msg \<Rightarrow> (400, ErrorMessage msg) | _ \<Rightarrow> (500, InternalServerError e))"

definition debug_create_reservation ::
  "(string \<Rightarrow> exn + instant) \<Rightarrow> reservation_request \<Rightarrow> reservation_store
     \<Rightarrow> response \<times> reservation_store" where
  "debug_create_reservation parse_jst_datetime data repo =
     (if falsy (rq_user_id data) then ((400, ErrorMessage ''user_id is required''), repo)
      else
        let user = the (rq_user_id data);
            room = (case rq_room_id data of None \<Rightarrow> ROOM_ID | Some r \<Rightarrow> r)
        in
        if falsy (rq_start_time data) \<or> falsy (rq_end_time data)
        then ((400, ErrorMessage ''start_time and end_time are required''), repo)
        else
          case parse_jst_datetime (the (rq_start_time data)) of
            Inl e \<Rightarrow> (debug_parse_failed e, repo)
          | Inr start_dt \<Rightarrow>
          case parse_jst_datetime (the (rq_end_time data)) of
            Inl e \<Rightarrow> (debug_parse_failed e, repo)
          | Inr end_dt \<Rightarrow>
            case create_reservation repo room user start_dt end_dt of
              Inl e \<Rightarrow> ((400, ErrorStore e), repo)
            | Inr (res, repo') \<Rightarrow> ((201, ReservationJson res), repo'))"

subsection \<open>DELETE /api/reservations/<reservation_id>\<close>

definition api_cancel_reservation ::
  "nat \<Rightarrow> reservation_store \<Rightarrow> response \<times> reservation_store" where
  "api_cancel_reservation rid repo =
     (let (ok, repo') = cancel_reservation repo rid
      in if \<not> ok then ((404, ErrorMessage ''reservation not found''), repo')
         else ((200, CancelledJson rid), repo'))"

subsection \<open>GET and POST /debug/state_params\<close>

datatype http_method = GET | POST

text \<open>
  The local function \<^verbatim>\<open>_int_or_default\<close>: KeyError, TypeError and ValueError give the
  current value; any other exception leaves the function.
\<close>

definition int_or_default :: "(string \<Rightarrow> int option) \<Rightarrow> jval \<Rightarrow> string \<Rightarrow> int \<Rightarrow> exn + int" where
  "int_or_default int_of_str data key current =
     (case subscript data key of
        Inl e \<Rightarrow> Inr current
      | Inr v \<Rightarrow>
          (case py_int int_of_str v of
             Inr n \<Rightarrow> Inr n
           | Inl (KeyError k) \<Rightarrow> Inr current
           | Inl TypeError \<Rightarrow> Inr current
           | Inl (ValueError msg) \<Rightarrow> Inr current
           | Inl e \<Rightarrow> Inl e))"

definition state_params_json :: "room_manager \<Rightarrow> body" where
  "state_params_json rm =
     StateParamsJson (grace_period_sec rm) (arrival_window_before_sec rm)
       (arrival_window_after_sec rm) (cleanup_margin_sec rm)"

text \<open>
  The handler takes the decoded JSON body and the room manager and returns the response
  with the room manager after the request. The four attributes are assigned one after
  the other, so an exception that leaves \<^verbatim>\<open>_int_or_default\<close> keeps the assignments made
  before it and skips the others.
\<close>

definition debug_state_params ::
  "(string \<Rightarrow> int option) \<Rightarrow> http_method \<Rightarrow> jval \<Rightarrow> room_manager
     \<Rightarrow> response \<times> room_manager" where
  "debug_state_params int_of_str method json rm =
     (case method of
        GET \<Rightarrow> ((200, state_params_json rm), rm)
      | POST \<Rightarrow>
          let data = get_json_or_empty json in
          case int_or_default int_of_str data ''grace_period_sec'' (grace_period_sec rm) of
            Inl e \<Rightarrow> ((500, InternalServerError e), rm)
          | Inr g \<Rightarrow>
          let rm1 = rm\<lparr>grace_period_sec := g\<rparr> in
          case int_or_default int_of_str data ''arrival_window_before_sec''
                 (arrival_window_before_sec rm1) of
            Inl e \<Rightarrow> ((500, InternalServerError e), rm1)
          | Inr b \<Rightarrow>
          let rm2 = rm1\<lparr>arrival_window_before_sec := b\<rparr> in
          case int_or_default int_of_str data ''arrival_window_after_sec''
                 (arrival_window_after_sec rm2) of
            Inl e \<Rightarrow> ((500, InternalServerError e), rm2)
          | Inr a \<Rightarrow>
          let rm3 = rm2\<lparr>arrival_window_after_sec := a\<rparr> in
          case int_or_default int_of_str data ''cleanup_margin_sec''
                 (cleanup_margin_sec rm3) of
            Inl e \<Rightarrow> ((500, InternalServerError e), rm3)
          | Inr c \<Rightarrow>
          let rm4 = rm3\<lparr>cleanup_margin_sec := c\<rparr> in
          ((200, state_params_json rm4), rm4))"

subsection \<open>The background monitoring task\<close>

text \<open>
  What one iteration of the loop meets: the outcome of \<^verbatim>\<open>now_jst()\<close>, the occupancy
  provider (\<open>None\<close> while the global is still unset), and the functions
  \<^verbatim>\<open>room_manager.update_state\<close> and \<^verbatim>\<open>format_jst_iso\<close>. Each of them may raise (\<open>Inl\<close>).
\<close>

record tick_env =
  now_jst :: "exn + instant"
  occupancy_provider :: "(instant \<Rightarrow> exn + bool) option"
  update_state :: "bool \<Rightarrow> instant \<Rightarrow> exn + (string \<times> jval) list"
  format_jst_iso :: "instant \<Rightarrow> exn + string"

definition dict_item :: "(string \<times> jval) list \<Rightarrow> string \<Rightarrow> exn + jval" where
  "dict_item d key = (case map_of d key of None \<Rightarrow> Inl (KeyError key) | Some v \<Rightarrow> Inr v)"

text \<open>
  The body of the \<^verbatim>\<open>try\<close> block: the new value of \<^verbatim>\<open>system_status\<close>, or the exception
  raised on the way. The dict is assigned only once all of its values are there.
\<close>

definition monitoring_try :: "tick_env \<Rightarrow> exn + system_status" where
  "monitoring_try env =
     (case now_jst env of Inl e \<Rightarrow> Inl e | Inr current_time \<Rightarrow>
      case occupancy_provider env of None \<Rightarrow> Inl AttributeError | Some get_is_occupied \<Rightarrow>
      case get_is_occupied current_time of Inl e \<Rightarrow> Inl e | Inr is_occupied \<Rightarrow>
      case update_state env is_occupied current_time of Inl e \<Rightarrow> Inl e | Inr state_info \<Rightarrow>
      let people_count = (if is_occupied then 1 else 0) in
      case format_jst_iso env current_time of Inl e \<Rightarrow> Inl e | Inr ts \<Rightarrow>
      case dict_item state_info ''state'' of Inl e \<Rightarrow> Inl e | Inr st \<Rightarrow>
      case dict_item state_info ''reservation_id'' of Inl e \<Rightarrow> Inl e | Inr rid \<Rightarrow>
      case dict_item state_info ''alert'' of Inl e \<Rightarrow> Inl e | Inr al \<Rightarrow>
      Inr \<lparr>ss_timestamp = JStr ts, ss_room_id = ROOM_ID, ss_room_state = st,
           ss_people_count = people_count, ss_is_used = is_occupied,
           ss_reservation_id = rid, ss_alert = al\<rparr>)"

text \<open>What the task prints.\<close>

datatype printed = MonitoringTaskStarted | ErrorInMonitoringTask exn

text \<open>
  One iteration of \<^verbatim>\<open>while True\<close>: the \<^verbatim>\<open>try\<close> block, and the handler
  \<^verbatim>\<open>except Exception\<close>, which prints the exception and assigns nothing.
\<close>

definition monitoring_tick ::
  "tick_env \<Rightarrow> system_status \<times> printed list \<Rightarrow> system_status \<times> printed list" where
  "monitoring_tick env st =
     (case monitoring_try env of
        Inr new_status \<Rightarrow> (new_status, snd st)
      | Inl e \<Rightarrow> (fst st, snd st @ [ErrorInMonitoringTask e]))"

text \<open>
  The loop never returns. \<open>monitoring_loop envs st\<close> is the state reached after the
  iterations that meet the environments \<open>envs\<close>, one after the other, and
  \<open>background_monitoring_task\<close> is that state from the start of the task.
\<close>

fun monitoring_loop ::
  "tick_env list \<Rightarrow> system_status \<times> printed list \<Rightarrow> system_status \<times> printed list" where
  "monitoring_loop [] st = st"
| "monitoring_loop (env # envs) st = monitoring_loop envs (monitoring_tick env st)"

definition background_monitoring_task ::
  "system_status \<Rightarrow> tick_env list \<Rightarrow> system_status \<times> printed list" where
  "background_monitoring_task system_status envs =
     monitoring_loop envs (system_status, [MonitoringTaskStarted])"

subsection \<open>GET / and GET /api/room_status\<close>

text \<open>The path of a GET request and its Accept header, if it has one.\<close>

record get_request =
  gr_path :: string
  gr_accept :: "string option"

text \<open>
  The \<^verbatim>\<open>before_request\<close> hook: a request for \<^verbatim>\<open>/\<close> whose Accept header contains
  \<^verbatim>\<open>text/html\<close> is redirected to the login page before any view runs.
\<close>

definition redirect_browser_to_login :: "get_request \<Rightarrow> response option" where
  "redirect_browser_to_login req =
     (if gr_path req = ''/''
         \<and> sublist ''text/html'' (case gr_accept req of None \<Rightarrow> [] | Some a \<Rightarrow> a)
      then Some (302, Redirect ''/login'')
      else None)"

definition index :: "system_status \<Rightarrow> response" where
  "index system_status = (200, StatusJson system_status)"

definition api_room_status :: "system_status \<Rightarrow> response" where
  "api_room_status system_status = (200, StatusJson system_status)"

text \<open>
  The two routes that return the snapshot, behind the hook. \<open>None\<close> is a path served by
  another view.
\<close>

definition serve_status :: "system_status \<Rightarrow> get_request \<Rightarrow> response option" where
  "serve_status system_status req =
     (case redirect_browser_to_login req of
        Some r \<Rightarrow> Some r
      | None \<Rightarrow>
          if gr_path req = ''/'' then Some (index system_status)
          else if gr_path req = ''/api/room_status'' then Some (api_room_status system_status)
          else None)"

subsection \<open>Example inputs\<close>

text \<open>
  Five operations on the room: a booking from 10:00 to 10:30, one from 10:33 that the
  store refuses, one from 10:36 to 11:00, the cancellation of the first, and a new
  booking of 10:00 to 10:30.
\<close>

definition example_ops :: "store_op list" where
  "example_ops =
     [Create ''Room-A'' ''user-001'' (600 * us_per_minute) (630 * us_per_minute),
      Create ''Room-A'' ''user-002'' (633 * us_per_minute) (650 * us_per_minute),
      Create ''Room-A'' ''user-002'' (636 * us_per_minute) (660 * us_per_minute),
      Cancel 0,
      Create ''Room-A'' ''user-003'' (600 * us_per_minute) (630 * us_per_minute)]"

text \<open>
  A parser that knows the timestamps of the examples; day 0 is 2025-11-29. The clock
  stands just after 14:00 on that day.
\<close>

definition example_parse :: "string \<Rightarrow> exn + instant" where
  "example_parse s =
     (case map_of
        [(''2025-11-29T13:00:00+09:00'', 780 * us_per_minute),
         (''2025-11-29T13:30:00+09:00'', 810 * us_per_minute),
         (''2025-11-29T14:30:00+09:00'', 870 * us_per_minute),
         (''2025-11-29T15:00:00+09:00'', 900 * us_per_minute),
         (''2025-11-29T15:10:00+09:00'', 910 * us_per_minute),
         (''2025-11-29T15:30:00+09:00'', 930 * us_per_minute),
         (''2025-11-29T18:00:00+09:00'', 1080 * us_per_minute),
         (''2025-12-07T15:00:00+09:00'', 8 * us_per_day + 900 * us_per_minute),
         (''2025-12-07T15:30:00+09:00'', 8 * us_per_day + 930 * us_per_minute)] s of
        None \<Rightarrow> Inl (ValueError ''Invalid isoformat string'')
      | Some t \<Rightarrow> Inr t)"

definition example_now :: instant where
  "example_now = 840 * us_per_minute + 1"

text \<open>The user \<^verbatim>\<open>user-bad\<close> has reached the threshold; every other user has no points.\<close>

definition example_get_summary :: "string \<Rightarrow> instant \<Rightarrow> penalty_summary" where
  "example_get_summary user now =
     (if user = ''user-bad''
      then \<lparr>points = JInt 3, threshold = JInt 3, is_banned = True,
            ban_until = JStr ''2025-12-20T10:05:00+09:00'', window_days = JInt 30\<rparr>
      else \<lparr>points = JInt 0, threshold = JInt 3, is_banned = False,
            ban_until = JNull, window_days = JInt 30\<rparr>)"

definition example_request :: "string \<Rightarrow> string \<Rightarrow> string \<Rightarrow> string \<Rightarrow> reservation_request" where
  "example_request user date_str start_hm end_hm =
     \<lparr>rq_user_id = Some user, rq_room_id = None, rq_date = Some date_str,
      rq_start_time = Some start_hm, rq_end_time = Some end_hm\<rparr>"

definition example_debug_request :: "string \<Rightarrow> string \<Rightarrow> string \<Rightarrow> reservation_request" where
  "example_debug_request user start_str end_str =
     \<lparr>rq_user_id = Some user, rq_room_id = None, rq_date = None,
      rq_start_time = Some start_str, rq_end_time = Some end_str\<rparr>"

text \<open>
  A store with one reservation in each status, and one tick that succeeds with the room
  occupied, one whose occupancy read fails.
\<close>

definition example_store :: reservation_store where
  "example_store =
     \<lparr>buffer = 5 * us_per_minute,
      reservations =
        [\<lparr>reservation_id = 0, room_id = ''Room-A'', user_id = ''user-001'',
          start_time = 600 * us_per_minute, end_time = 630 * us_per_minute,
          status = Completed\<rparr>,
         \<lparr>reservation_id = 1, room_id = ''Room-A'', user_id = ''user-002'',
          start_time = 660 * us_per_minute, end_time = 690 * us_per_minute,
          status = Cancelled\<rparr>,
         \<lparr>reservation_id = 2, room_id = ''Room-A'', user_id = ''user-003'',
          start_time = 900 * us_per_minute, end_time = 930 * us_per_minute,
          status = Confirmed\<rparr>,
         \<lparr>reservation_id = 3, room_id = ''Room-A'', user_id = ''user-004'',
          start_time = 720 * us_per_minute, end_time = 750 * us_per_minute,
          status = NoShow\<rparr>],
      next_id = 4\<rparr>"

definition example_state_info :: "(string \<times> jval) list" where
  "example_state_info =
     [(''state'', JStr ''IN_USE''), (''reservation_id'', JInt 2), (''alert'', JNull)]"

definition example_tick :: tick_env where
  "example_tick =
     \<lparr>now_jst = Inr (905 * us_per_minute),
      occupancy_provider = Some (\<lambda>t. Inr True),
      update_state = (\<lambda>occ t. Inr example_state_info),
      format_jst_iso = (\<lambda>t. Inr ''2025-11-29T15:05:00+09:00'')\<rparr>"

definition example_failing_tick :: tick_env where
  "example_failing_tick =
     \<lparr>now_jst = Inr (905 * us_per_minute),
      occupancy_provider = Some (\<lambda>t. Inl (OtherException ''camera unavailable'')),
      update_state = (\<lambda>occ t. Inr example_state_info),
      format_jst_iso = (\<lambda>t. Inr ''2025-11-29T15:05:00+09:00'')\<rparr>"

definition example_status :: system_status where
  "example_status =
     \<lparr>ss_timestamp = JStr ''2025-11-29T15:05:00+09:00'', ss_room_id = ''Room-A'',
      ss_room_state = JStr ''IN_USE'', ss_people_count = 1, ss_is_used = True,
      ss_reservation_id = JInt 2, ss_alert = JNull\<rparr>"

definition example_room_manager :: room_manager where
  "example_room_manager =
     \<lparr>grace_period_sec = 300, arrival_window_before_sec = 600,
      arrival_window_after_sec = 600, cleanup_margin_sec = 300\<rparr>"

section \<open>Properties of the Reservation Store\<close>

lemma in_conflict_sym: "in_conflict b r1 r2 \<longleftrightarrow> in_conflict b r2 r1"
  by (auto simp: in_conflict_def intersects_buffered_def)

lemma conflict_free_snoc:
  "conflict_free b (rs @ [r]) \<longleftrightarrow> conflict_free b rs \<and> (\<forall>r' \<in> set rs. \<not> in_conflict b r' r)"
  by (induction rs) auto

lemma conflict_free_map:
  assumes "\<And>r. room_id (f r) = room_id r \<and> start_time (f r) = start_time r
             \<and> end_time (f r) = end_time r \<and> (status (f r) = Confirmed \<longrightarrow> status r = Confirmed)"
  shows "conflict_free b rs \<Longrightarrow> conflict_free b (map f rs)"
proof (induction rs)
  case Nil
  then show ?case by simp
next
  case (Cons r rs)
  have "in_conflict b (f r) (f r') \<Longrightarrow> in_conflict b r r'" for r'
    using assms [of r] assms [of r'] by (auto simp: in_conflict_def intersects_buffered_def)
  with Cons show ?case by auto
qed

lemma create_reservation_buffer:
  "create_reservation repo room user start end' = Inr (res, repo') \<Longrightarrow> buffer repo' = buffer repo"
  by (auto simp: create_reservation_def Let_def split: if_splits)

lemma cancel_reservation_buffer: "buffer (snd (cancel_reservation repo rid)) = buffer repo"
  by (simp add: cancel_reservation_def split: option.splits)

lemma create_reservation_conflict_free:
  assumes "create_reservation repo room user start end' = Inr (res, repo')"
    and "conflict_free (buffer repo) (reservations repo)"
  shows "conflict_free (buffer repo') (reservations repo')"
proof -
  from assms(1) have no: "\<not> list_ex (\<lambda>ex. room_id ex = room \<and> status ex = Confirmed
      \<and> intersects_buffered (buffer repo) ex start end') (reservations repo)"
    and res: "res = \<lparr>reservation_id = next_id repo, room_id = room, user_id = user,
                   start_time = start, end_time = end', status = Confirmed\<rparr>"
    and repo': "reservations repo' = reservations repo @ [res]" "buffer repo' = buffer repo"
    by (auto simp: create_reservation_def Let_def split: if_splits)
  have "\<not> in_conflict (buffer repo) r' res" if "r' \<in> set (reservations repo)" for r'
    using no that by (auto simp: list_ex_iff in_conflict_def res)
  with assms(2) show ?thesis
    by (simp add: repo' conflict_free_snoc)
qed

lemma cancel_reservation_conflict_free:
  assumes "conflict_free (buffer repo) (reservations repo)"
  shows "conflict_free (buffer (snd (cancel_reservation repo rid)))
           (reservations (snd (cancel_reservation repo rid)))"
proof (cases "fst (cancel_reservation repo rid)")
  case False
  then have "snd (cancel_reservation repo rid) = repo"
    by (auto simp: cancel_reservation_def split: option.splits if_splits)
  with assms show ?thesis by simp
next
  case True
  then have "reservations (snd (cancel_reservation repo rid)) =
      map (\<lambda>r. if reservation_id r = rid then r\<lparr>status := Cancelled\<rparr> else r) (reservations repo)"
    by (auto simp: cancel_reservation_def split: option.splits if_splits)
  moreover have "conflict_free (buffer repo)
      (map (\<lambda>r. if reservation_id r = rid then r\<lparr>status := Cancelled\<rparr> else r) (reservations repo))"
    by (rule conflict_free_map [OF _ assms]) simp
  ultimately show ?thesis
    by (simp add: cancel_reservation_buffer)
qed

lemma apply_store_op_conflict_free:
  assumes "conflict_free (buffer repo) (reservations repo)"
  shows "conflict_free (buffer (apply_store_op repo op)) (reservations (apply_store_op repo op))"
proof (cases op)
  case (Create room user start end')
  show ?thesis
  proof (cases "create_reservation repo room user start end'")
    case (Inl e)
    with Create assms show ?thesis by simp
  next
    case (Inr p)
    obtain res repo' where "p = (res, repo')" by (cases p)
    with Inr Create create_reservation_conflict_free [OF _ assms] show ?thesis by simp
  qed
next
  case (Cancel rid)
  with cancel_reservation_conflict_free [OF assms] show ?thesis by simp
qed

lemma apply_store_ops_conflict_free:
  "conflict_free (buffer repo) (reservations repo) \<Longrightarrow>
   conflict_free (buffer (apply_store_ops repo ops)) (reservations (apply_store_ops repo ops))"
  unfolding apply_store_ops_def
  by (induction ops arbitrary: repo) (simp_all add: apply_store_op_conflict_free)

lemma apply_store_op_buffer: "buffer (apply_store_op repo op) = buffer repo"
  by (cases op)
     (auto simp: cancel_reservation_buffer create_reservation_buffer split: sum.splits)

lemma apply_store_ops_buffer: "buffer (apply_store_ops repo ops) = buffer repo"
  unfolding apply_store_ops_def
  by (induction ops arbitrary: repo) (simp_all add: apply_store_op_buffer)

lemmas store_defs = apply_store_ops_def create_reservation_def cancel_reservation_def
  InMemoryReservationRepository_def reservation_repo_def us_per_minute_def
  intersects_buffered_def Let_def

text \<open>
  Claim C1, as stated, fails. With the buffer of 5 minutes, a booking of 10:00 to 10:30
  and a booking of 10:36 to 11:00 for the same room are both accepted: the first one,
  expanded to 09:55 to 10:35, does not meet the second. Once each of the two is expanded
  by the buffer, 09:55 to 10:35 and 10:31 to 11:05 overlap.
\<close>

theorem store_both_expanded_counterexample:
  "create_reservation
     (apply_store_ops reservation_repo
        [Create ''Room-A'' ''user-001'' (600 * us_per_minute) (630 * us_per_minute)])
     ''Room-A'' ''user-002'' (636 * us_per_minute) (660 * us_per_minute) \<noteq> Inl Overlap
   \<and> \<not> conflict_free_both_expanded (buffer reservation_repo)
      (reservations (apply_store_ops reservation_repo
         [Create ''Room-A'' ''user-001'' (600 * us_per_minute) (630 * us_per_minute),
          Create ''Room-A'' ''user-002'' (636 * us_per_minute) (660 * us_per_minute)]))"
  by (simp add: store_defs in_conflict_both_expanded_def)

text \<open>
  Claim C1, amended. After any sequence of create and cancel operations on a store that
  was constructed empty, with any buffer, no two Confirmed reservations for the same room
  are such that one of them, expanded by the buffer on both sides, meets the other as it
  was given. A create with \<open>start < end\<close> whose interval meets the buffer-expanded interval
  of an existing Confirmed reservation for the room fails with Overlap and leaves the
  store as it was.
\<close>

theorem store_keeps_confirmed_apart:
  "conflict_free (buffer (apply_store_ops (InMemoryReservationRepository m) ops))
     (reservations (apply_store_ops (InMemoryReservationRepository m) ops))
   \<and> (\<forall>repo room user start end'.
        start < end' \<and> (\<exists>ex \<in> set (reservations repo). room_id ex = room
            \<and> status ex = Confirmed \<and> intersects_buffered (buffer repo) ex start end')
        \<longrightarrow> create_reservation repo room user start end' = Inl Overlap
            \<and> apply_store_op repo (Create room user start end') = repo)"
proof -
  have "conflict_free (buffer (InMemoryReservationRepository m))
          (reservations (InMemoryReservationRepository m))"
    by (simp add: InMemoryReservationRepository_def)
  then have "conflict_free (buffer (apply_store_ops (InMemoryReservationRepository m) ops))
     (reservations (apply_store_ops (InMemoryReservationRepository m) ops))"
    by (rule apply_store_ops_conflict_free)
  moreover have "create_reservation repo room user start end' = Inl Overlap
            \<and> apply_store_op repo (Create room user start end') = repo"
    if "start < end'" "\<exists>ex \<in> set (reservations repo). room_id ex = room
            \<and> status ex = Confirmed \<and> intersects_buffered (buffer repo) ex start end'"
    for repo room user start end'
    using that by (auto simp: create_reservation_def list_ex_iff)
  ultimately show ?thesis by blast
qed

theorem store_keeps_confirmed_apart_witness:
  "conflict_free (buffer (apply_store_ops (InMemoryReservationRepository 5) example_ops))
     (reservations (apply_store_ops (InMemoryReservationRepository 5) example_ops))
   \<and> length (reservations (apply_store_ops (InMemoryReservationRepository 5) example_ops)) = 3
   \<and> create_reservation (apply_store_ops (InMemoryReservationRepository 5) example_ops)
        ''Room-A'' ''user-004'' (631 * us_per_minute) (635 * us_per_minute) = Inl Overlap"
proof -
  note t = store_keeps_confirmed_apart [of 5 example_ops]
  have len: "length (reservations (apply_store_ops (InMemoryReservationRepository 5) example_ops)) = 3"
    by (simp add: example_ops_def store_defs)
  have hyp: "631 * us_per_minute < 635 * us_per_minute
     \<and> (\<exists>ex \<in> set (reservations (apply_store_ops (InMemoryReservationRepository 5) example_ops)).
          room_id ex = ''Room-A'' \<and> status ex = Confirmed
          \<and> intersects_buffered (buffer (apply_store_ops (InMemoryReservationRepository 5) example_ops))
               ex (631 * us_per_minute) (635 * us_per_minute))"
    by (simp add: example_ops_def store_defs)
  from t hyp len show ?thesis by blast
qed

section \<open>Properties of POST /api/reservations\<close>

lemmas example_defs = example_parse_def example_now_def example_get_summary_def
  example_request_def example_debug_request_def us_per_minute_def us_per_day_def

lemma date_of_add_days: "date_of (t + k * us_per_day) = date_of t + k"
  by (simp add: date_of_def us_per_day_def)

lemma duration_minutes_less: "duration_minutes s e < of_int m \<longleftrightarrow> e - s < m * us_per_minute"
proof -
  have "duration_minutes s e < of_int m \<longleftrightarrow> (of_int (e - s) :: rat) < of_int (m * 60000000)"
    by (simp add: duration_minutes_def field_simps)
  also have "\<dots> \<longleftrightarrow> e - s < m * 60000000"
    by (simp only: of_int_less_iff)
  finally show ?thesis by (simp add: us_per_minute_def)
qed

lemma duration_minutes_greater: "duration_minutes s e > of_int m \<longleftrightarrow> e - s > m * us_per_minute"
proof -
  have "duration_minutes s e > of_int m \<longleftrightarrow> (of_int (e - s) :: rat) > of_int (m * 60000000)"
    by (simp add: duration_minutes_def field_simps)
  also have "\<dots> \<longleftrightarrow> e - s > m * 60000000"
    by (simp only: of_int_less_iff)
  finally show ?thesis by (simp add: us_per_minute_def)
qed

text \<open>
  Claim C2. A create with \<open>end \<le> start\<close> fails with InvalidRange and stores nothing,
  whatever the room and the user. A POST /api/reservations whose two times parse to
  \<open>end \<le> start\<close> is answered with an error (400, or 403 for a banned user) and the store
  is as before; POST /debug/reservations answers it with 400 and the store is as before.
\<close>

theorem invalid_range_rejected:
  "(end' \<le> start \<longrightarrow>
      create_reservation repo room user start end' = Inl InvalidRange
      \<and> apply_store_op repo (Create room user start end') = repo)
   \<and> (rq_date data = Some d \<and> rq_start_time data = Some sh \<and> rq_end_time data = Some eh
       \<and> parse (d @ ''T'' @ sh @ '':00+09:00'') = Inr start_dt
       \<and> parse (d @ ''T'' @ eh @ '':00+09:00'') = Inr end_dt \<and> end_dt \<le> start_dt \<longrightarrow>
      fst (fst (api_create_reservation pol gs parse now data repo)) \<in> {400, 403}
      \<and> snd (api_create_reservation pol gs parse now data repo) = repo)
   \<and> (rq_start_time dbg = Some s \<and> rq_end_time dbg = Some e
       \<and> parse s = Inr start_dt \<and> parse e = Inr end_dt \<and> end_dt \<le> start_dt \<longrightarrow>
      fst (fst (debug_create_reservation parse dbg repo)) = 400
      \<and> snd (debug_create_reservation parse dbg repo) = repo)"
proof (intro conjI impI)
  assume "end' \<le> start"
  then show "create_reservation repo room user start end' = Inl InvalidRange"
    and "apply_store_op repo (Create room user start end') = repo"
    by (simp_all add: create_reservation_def)
next
  assume "rq_date data = Some d \<and> rq_start_time data = Some sh \<and> rq_end_time data = Some eh
       \<and> parse (d @ ''T'' @ sh @ '':00+09:00'') = Inr start_dt
       \<and> parse (d @ ''T'' @ eh @ '':00+09:00'') = Inr end_dt \<and> end_dt \<le> start_dt"
  then show "fst (fst (api_create_reservation pol gs parse now data repo)) \<in> {400, 403}"
    and "snd (api_create_reservation pol gs parse now data repo) = repo"
    by (auto simp: api_create_reservation_def Let_def)
next
  assume "rq_start_time dbg = Some s \<and> rq_end_time dbg = Some e
       \<and> parse s = Inr start_dt \<and> parse e = Inr end_dt \<and> end_dt \<le> start_dt"
  then show "fst (fst (debug_create_reservation parse dbg repo)) = 400"
    and "snd (debug_create_reservation parse dbg repo) = repo"
    by (auto simp: debug_create_reservation_def Let_def create_reservation_def)
qed

theorem invalid_range_rejected_witness:
  "create_reservation reservation_repo ''Room-A'' ''user-001''
      (900 * us_per_minute) (870 * us_per_minute) = Inl InvalidRange
   \<and> fst (fst (api_create_reservation default_policy example_get_summary example_parse
        example_now (example_request ''user-001'' ''2025-11-29'' ''15:00'' ''14:30'')
        reservation_repo)) \<in> {400, 403}
   \<and> snd (api_create_reservation default_policy example_get_summary example_parse
        example_now (example_request ''user-001'' ''2025-11-29'' ''15:00'' ''14:30'')
        reservation_repo) = reservation_repo
   \<and> fst (fst (debug_create_reservation example_parse
        (example_debug_request ''user-001'' ''2025-11-29T15:00:00+09:00''
           ''2025-11-29T14:30:00+09:00'') reservation_repo)) = 400
   \<and> snd (debug_create_reservation example_parse
        (example_debug_request ''user-001'' ''2025-11-29T15:00:00+09:00''
           ''2025-11-29T14:30:00+09:00'') reservation_repo) = reservation_repo"
proof -
  note t = invalid_range_rejected [of "870 * us_per_minute" "900 * us_per_minute"
      reservation_repo "''Room-A''" "''user-001''"
      "example_request ''user-001'' ''2025-11-29'' ''15:00'' ''14:30''"
      "''2025-11-29''" "''15:00''" "''14:30''" example_parse
      "900 * us_per_minute" "870 * us_per_minute" default_policy example_get_summary
      example_now
      "example_debug_request ''user-001'' ''2025-11-29T15:00:00+09:00''
           ''2025-11-29T14:30:00+09:00''"
      "''2025-11-29T15:00:00+09:00''" "''2025-11-29T14:30:00+09:00''"]
  have h1: "870 * us_per_minute \<le> 900 * us_per_minute"
    by (simp add: us_per_minute_def)
  have h2: "rq_date (example_request ''user-001'' ''2025-11-29'' ''15:00'' ''14:30'')
        = Some ''2025-11-29''
      \<and> rq_start_time (example_request ''user-001'' ''2025-11-29'' ''15:00'' ''14:30'')
        = Some ''15:00''
      \<and> rq_end_time (example_request ''user-001'' ''2025-11-29'' ''15:00'' ''14:30'')
        = Some ''14:30''
      \<and> example_parse (''2025-11-29'' @ ''T'' @ ''15:00'' @ '':00+09:00'')
        = Inr (900 * us_per_minute)
      \<and> example_parse (''2025-11-29'' @ ''T'' @ ''14:30'' @ '':00+09:00'')
        = Inr (870 * us_per_minute)
      \<and> 870 * us_per_minute \<le> 900 * us_per_minute"
    by (simp add: example_defs)
  have h3: "rq_start_time (example_debug_request ''user-001'' ''2025-11-29T15:00:00+09:00''
           ''2025-11-29T14:30:00+09:00'') = Some ''2025-11-29T15:00:00+09:00''
      \<and> rq_end_time (example_debug_request ''user-001'' ''2025-11-29T15:00:00+09:00''
           ''2025-11-29T14:30:00+09:00'') = Some ''2025-11-29T14:30:00+09:00''
      \<and> example_parse ''2025-11-29T15:00:00+09:00'' = Inr (900 * us_per_minute)
      \<and> example_parse ''2025-11-29T14:30:00+09:00'' = Inr (870 * us_per_minute)
      \<and> 870 * us_per_minute \<le> 900 * us_per_minute"
    by (simp add: example_defs)
  from t h1 h2 h3 show ?thesis by blast
qed

text \<open>
  Claim C4. A POST /api/reservations whose two times parse, and whose duration is below
  MIN_RESERVE_MINUTES or above MAX_RESERVE_MINUTES, or whose start date is more than
  MAX_RESERVE_DAYS_AHEAD days after the date of the current time, is answered with an
  error (400, or 403 for a banned user) and the store is as before. The store makes none
  of these checks: a create succeeds exactly when \<open>start < end\<close> and no Confirmed
  reservation for the room, expanded by the buffer, meets the interval.
\<close>

theorem policy_enforced_by_request_layer:
  "(rq_date data = Some d \<and> rq_start_time data = Some sh \<and> rq_end_time data = Some eh
       \<and> parse (d @ ''T'' @ sh @ '':00+09:00'') = Inr start_dt
       \<and> parse (d @ ''T'' @ eh @ '':00+09:00'') = Inr end_dt
       \<and> (end_dt - start_dt < MIN_RESERVE_MINUTES pol * us_per_minute
          \<or> end_dt - start_dt > MAX_RESERVE_MINUTES pol * us_per_minute
          \<or> date_of start_dt > date_of now + MAX_RESERVE_DAYS_AHEAD pol) \<longrightarrow>
      fst (fst (api_create_reservation pol gs parse now data repo)) \<in> {400, 403}
      \<and> snd (api_create_reservation pol gs parse now data repo) = repo)
   \<and> ((\<exists>res repo'. create_reservation repo room user start end' = Inr (res, repo')) \<longleftrightarrow>
        start < end' \<and> \<not> (\<exists>ex \<in> set (reservations repo). room_id ex = room
            \<and> status ex = Confirmed \<and> intersects_buffered (buffer repo) ex start end'))"
proof (intro conjI impI)
  assume "rq_date data = Some d \<and> rq_start_time data = Some sh \<and> rq_end_time data = Some eh
       \<and> parse (d @ ''T'' @ sh @ '':00+09:00'') = Inr start_dt
       \<and> parse (d @ ''T'' @ eh @ '':00+09:00'') = Inr end_dt
       \<and> (end_dt - start_dt < MIN_RESERVE_MINUTES pol * us_per_minute
          \<or> end_dt - start_dt > MAX_RESERVE_MINUTES pol * us_per_minute
          \<or> date_of start_dt > date_of now + MAX_RESERVE_DAYS_AHEAD pol)"
  then show "fst (fst (api_create_reservation pol gs parse now data repo)) \<in> {400, 403}"
    and "snd (api_create_reservation pol gs parse now data repo) = repo"
    by (auto simp: api_create_reservation_def Let_def duration_minutes_less
          duration_minutes_greater date_of_add_days)
next
  show "(\<exists>res repo'. create_reservation repo room user start end' = Inr (res, repo')) \<longleftrightarrow>
        start < end' \<and> \<not> (\<exists>ex \<in> set (reservations repo). room_id ex = room
            \<and> status ex = Confirmed \<and> intersects_buffered (buffer repo) ex start end')"
    by (auto simp: create_reservation_def Let_def list_ex_iff)
qed

text \<open>
  The witness: a booking of 10 minutes, one of 3 hours and one 8 days ahead are refused
  by the handler, and the store itself accepts a booking of 3 hours.
\<close>

theorem policy_enforced_by_request_layer_witness:
  "fst (fst (api_create_reservation default_policy example_get_summary example_parse
        example_now (example_request ''user-001'' ''2025-11-29'' ''15:00'' ''15:10'')
        reservation_repo)) \<in> {400, 403}
   \<and> snd (api_create_reservation default_policy example_get_summary example_parse
        example_now (example_request ''user-001'' ''2025-11-29'' ''15:00'' ''15:10'')
        reservation_repo) = reservation_repo
   \<and> fst (fst (api_create_reservation default_policy example_get_summary example_parse
        example_now (example_request ''user-001'' ''2025-11-29'' ''15:00'' ''18:00'')
        reservation_repo)) \<in> {400, 403}
   \<and> fst (fst (api_create_reservation default_policy example_get_summary example_parse
        example_now (example_request ''user-001'' ''2025-12-07'' ''15:00'' ''15:30'')
        reservation_repo)) \<in> {400, 403}
   \<and> (\<exists>res repo'. create_reservation reservation_repo ''Room-A'' ''user-001''
        (900 * us_per_minute) (1080 * us_per_minute) = Inr (res, repo'))"
proof -
  have short: "rq_date (example_request ''user-001'' ''2025-11-29'' ''15:00'' ''15:10'')
        = Some ''2025-11-29''
      \<and> rq_start_time (example_request ''user-001'' ''2025-11-29'' ''15:00'' ''15:10'')
        = Some ''15:00''
      \<and> rq_end_time (example_request ''user-001'' ''2025-11-29'' ''15:00'' ''15:10'')
        = Some ''15:10''
      \<and> example_parse (''2025-11-29'' @ ''T'' @ ''15:00'' @ '':00+09:00'')
        = Inr (900 * us_per_minute)
      \<and> example_parse (''2025-11-29'' @ ''T'' @ ''15:10'' @ '':00+09:00'')
        = Inr (910 * us_per_minute)
      \<and> (910 * us_per_minute - 900 * us_per_minute
            < MIN_RESERVE_MINUTES default_policy * us_per_minute
          \<or> 910 * us_per_minute - 900 * us_per_minute
            > MAX_RESERVE_MINUTES default_policy * us_per_minute
          \<or> date_of (900 * us_per_minute)
            > date_of example_now + MAX_RESERVE_DAYS_AHEAD default_policy)"
    by (simp add: example_defs default_policy_def)
  have long: "rq_date (example_request ''user-001'' ''2025-11-29'' ''15:00'' ''18:00'')
        = Some ''2025-11-29''
      \<and> rq_start_time (example_request ''user-001'' ''2025-11-29'' ''15:00'' ''18:00'')
        = Some ''15:00''
      \<and> rq_end_time (example_request ''user-001'' ''2025-11-29'' ''15:00'' ''18:00'')
        = Some ''18:00''
      \<and> example_parse (''2025-11-29'' @ ''T'' @ ''15:00'' @ '':00+09:00'')
        = Inr (900 * us_per_minute)
      \<and> example_parse (''2025-11-29'' @ ''T'' @ ''18:00'' @ '':00+09:00'')
        = Inr (1080 * us_per_minute)
      \<and> (1080 * us_per_minute - 900 * us_per_minute
            < MIN_RESERVE_MINUTES default_policy * us_per_minute
          \<or> 1080 * us_per_minute - 900 * us_per_minute
            > MAX_RESERVE_MINUTES default_policy * us_per_minute
          \<or> date_of (900 * us_per_minute)
            > date_of example_now + MAX_RESERVE_DAYS_AHEAD default_policy)"
    by (simp add: example_defs default_policy_def)
  have far: "rq_date (example_request ''user-001'' ''2025-12-07'' ''15:00'' ''15:30'')
        = Some ''2025-12-07''
      \<and> rq_start_time (example_request ''user-001'' ''2025-12-07'' ''15:00'' ''15:30'')
        = Some ''15:00''
      \<and> rq_end_time (example_request ''user-001'' ''2025-12-07'' ''15:00'' ''15:30'')
        = Some ''15:30''
      \<and> example_parse (''2025-12-07'' @ ''T'' @ ''15:00'' @ '':00+09:00'')
        = Inr (8 * us_per_day + 900 * us_per_minute)
      \<and> example_parse (''2025-12-07'' @ ''T'' @ ''15:30'' @ '':00+09:00'')
        = Inr (8 * us_per_day + 930 * us_per_minute)
      \<and> (8 * us_per_day + 930 * us_per_minute - (8 * us_per_day + 900 * us_per_minute)
            < MIN_RESERVE_MINUTES default_policy * us_per_minute
          \<or> 8 * us_per_day + 930 * us_per_minute - (8 * us_per_day + 900 * us_per_minute)
            > MAX_RESERVE_MINUTES default_policy * us_per_minute
          \<or> date_of (8 * us_per_day + 900 * us_per_minute)
            > date_of example_now + MAX_RESERVE_DAYS_AHEAD default_policy)"
    by (simp add: example_defs default_policy_def date_of_def)
  have store: "900 * us_per_minute < 1080 * us_per_minute
      \<and> \<not> (\<exists>ex \<in> set (reservations reservation_repo). room_id ex = ''Room-A''
            \<and> status ex = Confirmed
            \<and> intersects_buffered (buffer reservation_repo) ex
                 (900 * us_per_minute) (1080 * us_per_minute))"
    by (simp add: store_defs)
  note t = policy_enforced_by_request_layer
  from t [where pol = default_policy and parse = example_parse and now = example_now
        and gs = example_get_summary and repo = reservation_repo,
        of "example_request ''user-001'' ''2025-11-29'' ''15:00'' ''15:10''"] short
  have a: "fst (fst (api_create_reservation default_policy example_get_summary example_parse
        example_now (example_request ''user-001'' ''2025-11-29'' ''15:00'' ''15:10'')
        reservation_repo)) \<in> {400, 403}
   \<and> snd (api_create_reservation default_policy example_get_summary example_parse
        example_now (example_request ''user-001'' ''2025-11-29'' ''15:00'' ''15:10'')
        reservation_repo) = reservation_repo"
    by blast
  from t [where pol = default_policy and parse = example_parse and now = example_now
        and gs = example_get_summary and repo = reservation_repo,
        of "example_request ''user-001'' ''2025-11-29'' ''15:00'' ''18:00''"] long
  have b: "fst (fst (api_create_reservation default_policy example_get_summary example_parse
        example_now (example_request ''user-001'' ''2025-11-29'' ''15:00'' ''18:00'')
        reservation_repo)) \<in> {400, 403}"
    by blast
  from t [where pol = default_policy and parse = example_parse and now = example_now
        and gs = example_get_summary and repo = reservation_repo,
        of "example_request ''user-001'' ''2025-12-07'' ''15:00'' ''15:30''"] far
  have c: "fst (fst (api_create_reservation default_policy example_get_summary example_parse
        example_now (example_request ''user-001'' ''2025-12-07'' ''15:00'' ''15:30'')
        reservation_repo)) \<in> {400, 403}"
    by blast
  from t [where repo = reservation_repo and room = "''Room-A''" and user = "''user-001''"
        and start = "900 * us_per_minute" and end' = "1080 * us_per_minute"] store
  have d: "\<exists>res repo'. create_reservation reservation_repo ''Room-A'' ''user-001''
        (900 * us_per_minute) (1080 * us_per_minute) = Inr (res, repo')"
    by blast
  from a b c d show ?thesis by blast
qed

text \<open>
  Claim C9. A POST /api/reservations that names a user whose penalty summary at the
  current time reports \<open>is_banned\<close> is answered with 403 and the user's points, threshold,
  ban_until and window_days, whatever the other fields of the request hold and whatever
  the parser does; the store is as before.
\<close>

theorem banned_user_rejected:
  "rq_user_id data = Some user \<and> user \<noteq> [] \<and> is_banned (gs user now) \<longrightarrow>
     api_create_reservation pol gs parse now data repo =
       ((403, ErrorBanned (points (gs user now)) (threshold (gs user now))
                (ban_until (gs user now)) (window_days (gs user now))), repo)"
  by (simp add: api_create_reservation_def falsy_def Let_def)

theorem banned_user_rejected_witness:
  "api_create_reservation default_policy example_get_summary example_parse example_now
       (example_request ''user-bad'' ''2025-11-29'' ''15:00'' ''15:30'') reservation_repo =
     ((403, ErrorBanned (JInt 3) (JInt 3) (JStr ''2025-12-20T10:05:00+09:00'') (JInt 30)),
      reservation_repo)"
proof -
  have h: "rq_user_id (example_request ''user-bad'' ''2025-11-29'' ''15:00'' ''15:30'')
        = Some ''user-bad''
      \<and> ''user-bad'' \<noteq> [] \<and> is_banned (example_get_summary ''user-bad'' example_now)"
    by (simp add: example_defs)
  have v: "points (example_get_summary ''user-bad'' example_now) = JInt 3
      \<and> threshold (example_get_summary ''user-bad'' example_now) = JInt 3
      \<and> ban_until (example_get_summary ''user-bad'' example_now)
          = JStr ''2025-12-20T10:05:00+09:00''
      \<and> window_days (example_get_summary ''user-bad'' example_now) = JInt 30"
    by (simp add: example_defs)
  from banned_user_rejected [of "example_request ''user-bad'' ''2025-11-29'' ''15:00'' ''15:30''"
      "''user-bad''" example_get_summary example_now default_policy example_parse
      reservation_repo] h
  have "api_create_reservation default_policy example_get_summary example_parse example_now
       (example_request ''user-bad'' ''2025-11-29'' ''15:00'' ''15:30'') reservation_repo =
     ((403, ErrorBanned (points (example_get_summary ''user-bad'' example_now))
          (threshold (example_get_summary ''user-bad'' example_now))
          (ban_until (example_get_summary ''user-bad'' example_now))
          (window_days (example_get_summary ''user-bad'' example_now))), reservation_repo)"
    by blast
  with v show ?thesis by simp
qed

text \<open>
  Claim C10, as stated, fails: the ban is tested before the start time, so a banned
  user's request for a start in the past is answered with 403, not 400.
\<close>

theorem past_start_banned_counterexample:
  "example_parse (''2025-11-29'' @ ''T'' @ ''13:00'' @ '':00+09:00'') = Inr (780 * us_per_minute)
   \<and> 780 * us_per_minute < example_now
   \<and> fst (fst (api_create_reservation default_policy example_get_summary example_parse
        example_now (example_request ''user-bad'' ''2025-11-29'' ''13:00'' ''13:30'')
        reservation_repo)) = 403"
  by (simp add: example_defs api_create_reservation_def falsy_def Let_def)

text \<open>
  Claim C10, amended. A POST /api/reservations whose start time parses to an instant
  strictly before the current time is answered with 403 when it names a banned user and
  with 400 otherwise, and the store is as before.
\<close>

theorem past_start_rejected:
  "rq_date data = Some d \<and> rq_start_time data = Some sh
     \<and> parse (d @ ''T'' @ sh @ '':00+09:00'') = Inr start_dt \<and> start_dt < now \<longrightarrow>
   fst (fst (api_create_reservation pol gs parse now data repo)) =
       (if \<not> falsy (rq_user_id data) \<and> is_banned (gs (the (rq_user_id data)) now)
        then 403 else 400)
   \<and> snd (api_create_reservation pol gs parse now data repo) = repo"
  by (auto simp: api_create_reservation_def Let_def split: sum.splits)

theorem past_start_rejected_witness:
  "fst (fst (api_create_reservation default_policy example_get_summary example_parse
        example_now (example_request ''user-001'' ''2025-11-29'' ''13:00'' ''13:30'')
        reservation_repo)) = 400
   \<and> snd (api_create_reservation default_policy example_get_summary example_parse
        example_now (example_request ''user-001'' ''2025-11-29'' ''13:00'' ''13:30'')
        reservation_repo) = reservation_repo"
proof -
  have h: "rq_date (example_request ''user-001'' ''2025-11-29'' ''13:00'' ''13:30'')
        = Some ''2025-11-29''
      \<and> rq_start_time (example_request ''user-001'' ''2025-11-29'' ''13:00'' ''13:30'')
        = Some ''13:00''
      \<and> example_parse (''2025-11-29'' @ ''T'' @ ''13:00'' @ '':00+09:00'')
        = Inr (780 * us_per_minute)
      \<and> 780 * us_per_minute < example_now"
    by (simp add: example_defs)
  have u: "\<not> (\<not> falsy (rq_user_id (example_request ''user-001'' ''2025-11-29'' ''13:00'' ''13:30''))
      \<and> is_banned (example_get_summary
           (the (rq_user_id (example_request ''user-001'' ''2025-11-29'' ''13:00'' ''13:30'')))
           example_now))"
    by (simp add: example_defs)
  from past_start_rejected [where pol = default_policy and parse = example_parse
      and now = example_now and gs = example_get_summary and repo = reservation_repo,
      of "example_request ''user-001'' ''2025-11-29'' ''13:00'' ''13:30''"] h
  have "fst (fst (api_create_reservation default_policy example_get_summary example_parse
        example_now (example_request ''user-001'' ''2025-11-29'' ''13:00'' ''13:30'')
        reservation_repo)) =
       (if \<not> falsy (rq_user_id (example_request ''user-001'' ''2025-11-29'' ''13:00'' ''13:30''))
          \<and> is_banned (example_get_summary
           (the (rq_user_id (example_request ''user-001'' ''2025-11-29'' ''13:00'' ''13:30'')))
           example_now)
        then 403 else 400)
   \<and> snd (api_create_reservation default_policy example_get_summary example_parse
        example_now (example_request ''user-001'' ''2025-11-29'' ''13:00'' ''13:30'')
        reservation_repo) = reservation_repo"
    by blast
  with u show ?thesis by simp
qed

section \<open>Properties of DELETE /api/reservations/<reservation_id>\<close>

lemma find_by_id_None:
  "rid \<notin> reservation_id ` set rs \<Longrightarrow> find (\<lambda>r. reservation_id r = rid) rs = None"
  by (induction rs) auto

lemma find_by_id_Some:
  "distinct (map reservation_id rs) \<Longrightarrow> r \<in> set rs \<Longrightarrow> reservation_id r = rid \<Longrightarrow>
   find (\<lambda>r. reservation_id r = rid) rs = Some r"
  by (induction rs) auto

lemma find_after_cancel:
  "find (\<lambda>r. reservation_id r = rid) rs = Some r \<Longrightarrow>
   find (\<lambda>r. reservation_id r = rid)
     (map (\<lambda>r. if reservation_id r = rid then r\<lparr>status := Cancelled\<rparr> else r) rs)
     = Some (r\<lparr>status := Cancelled\<rparr>)"
  by (induction rs) (auto split: if_splits)

lemma cancel_reservation_refused:
  assumes "find (\<lambda>r. reservation_id r = rid) (reservations repo) = None
      \<or> (\<exists>r. find (\<lambda>r. reservation_id r = rid) (reservations repo) = Some r
            \<and> (status r = Cancelled \<or> status r = Completed))"
  shows "cancel_reservation repo rid = (False, repo)"
  using assms by (auto simp: cancel_reservation_def)

lemma cancel_reservation_done:
  assumes "find (\<lambda>r. reservation_id r = rid) (reservations repo) = Some r"
    and "status r \<noteq> Cancelled" "status r \<noteq> Completed"
  shows "fst (cancel_reservation repo rid)"
    and "cancel_reservation (snd (cancel_reservation repo rid)) rid
           = (False, snd (cancel_reservation repo rid))"
proof -
  let ?rs' = "map (\<lambda>r. if reservation_id r = rid then r\<lparr>status := Cancelled\<rparr> else r)
                (reservations repo)"
  have c: "cancel_reservation repo rid = (True, repo\<lparr>reservations := ?rs'\<rparr>)"
    using assms by (simp add: cancel_reservation_def)
  then show "fst (cancel_reservation repo rid)" by simp
  have "find (\<lambda>r. reservation_id r = rid) ?rs' = Some (r\<lparr>status := Cancelled\<rparr>)"
    using assms(1) by (rule find_after_cancel)
  then have "cancel_reservation (repo\<lparr>reservations := ?rs'\<rparr>) rid
      = (False, repo\<lparr>reservations := ?rs'\<rparr>)"
    by (intro cancel_reservation_refused) simp
  with c show "cancel_reservation (snd (cancel_reservation repo rid)) rid
           = (False, snd (cancel_reservation repo rid))"
    by simp
qed

text \<open>
  Claim C5. In a store whose reservation ids are distinct, cancelling an id that is
  unknown, or whose reservation is Cancelled or Completed, returns false and changes
  nothing, and the request layer answers 404 with the store as before. Cancelling any
  other id returns true, the request layer answers 200, and cancelling the same id again
  returns false and changes nothing more.
\<close>

theorem cancel_not_found_is_false:
  "distinct (map reservation_id (reservations repo)) \<longrightarrow>
     ((rid \<notin> reservation_id ` set (reservations repo)
        \<or> (\<exists>r \<in> set (reservations repo). reservation_id r = rid
              \<and> (status r = Cancelled \<or> status r = Completed)) \<longrightarrow>
       cancel_reservation repo rid = (False, repo)
       \<and> api_cancel_reservation rid repo
           = ((404, ErrorMessage ''reservation not found''), repo))
     \<and> ((\<exists>r \<in> set (reservations repo). reservation_id r = rid
              \<and> status r \<noteq> Cancelled \<and> status r \<noteq> Completed) \<longrightarrow>
       fst (cancel_reservation repo rid)
       \<and> api_cancel_reservation rid repo
           = ((200, CancelledJson rid), snd (cancel_reservation repo rid))
       \<and> cancel_reservation (snd (cancel_reservation repo rid)) rid
           = (False, snd (cancel_reservation repo rid))))"
proof (intro impI conjI)
  assume d: "distinct (map reservation_id (reservations repo))"
  assume "rid \<notin> reservation_id ` set (reservations repo)
        \<or> (\<exists>r \<in> set (reservations repo). reservation_id r = rid
              \<and> (status r = Cancelled \<or> status r = Completed))"
  then have "find (\<lambda>r. reservation_id r = rid) (reservations repo) = None
      \<or> (\<exists>r. find (\<lambda>r. reservation_id r = rid) (reservations repo) = Some r
            \<and> (status r = Cancelled \<or> status r = Completed))"
    using find_by_id_None find_by_id_Some [OF d] by blast
  then show c: "cancel_reservation repo rid = (False, repo)"
    by (rule cancel_reservation_refused)
  then show "api_cancel_reservation rid repo
      = ((404, ErrorMessage ''reservation not found''), repo)"
    by (simp add: api_cancel_reservation_def)
next
  assume d: "distinct (map reservation_id (reservations repo))"
  assume "\<exists>r \<in> set (reservations repo). reservation_id r = rid
              \<and> status r \<noteq> Cancelled \<and> status r \<noteq> Completed"
  then obtain r where r: "find (\<lambda>r. reservation_id r = rid) (reservations repo) = Some r"
      "status r \<noteq> Cancelled" "status r \<noteq> Completed"
    using find_by_id_Some [OF d] by blast
  then show t: "fst (cancel_reservation repo rid)"
    by (rule cancel_reservation_done)
  then show "api_cancel_reservation rid repo
      = ((200, CancelledJson rid), snd (cancel_reservation repo rid))"
    by (cases "cancel_reservation repo rid") (simp add: api_cancel_reservation_def)
  from r show "cancel_reservation (snd (cancel_reservation repo rid)) rid
           = (False, snd (cancel_reservation repo rid))"
    by (rule cancel_reservation_done)
qed

text \<open>
  The witness, on a store with one reservation in each status: id 7 is unknown, id 0 is
  Completed, id 1 is Cancelled, and id 2 is Confirmed and is cancelled once.
\<close>

theorem cancel_not_found_is_false_witness:
  "cancel_reservation example_store 7 = (False, example_store)
   \<and> api_cancel_reservation 7 example_store
       = ((404, ErrorMessage ''reservation not found''), example_store)
   \<and> cancel_reservation example_store 0 = (False, example_store)
   \<and> api_cancel_reservation 1 example_store
       = ((404, ErrorMessage ''reservation not found''), example_store)
   \<and> fst (cancel_reservation example_store 2)
   \<and> map status (reservations (snd (cancel_reservation example_store 2)))
       = [Completed, Cancelled, Cancelled, NoShow]
   \<and> cancel_reservation (snd (cancel_reservation example_store 2)) 2
       = (False, snd (cancel_reservation example_store 2))"
proof -
  have d: "distinct (map reservation_id (reservations example_store))"
    by (simp add: example_store_def)
  have h7: "7 \<notin> reservation_id ` set (reservations example_store)"
    by (simp add: example_store_def)
  have h0: "\<exists>r \<in> set (reservations example_store). reservation_id r = 0
              \<and> (status r = Cancelled \<or> status r = Completed)"
    by (simp add: example_store_def)
  have h1: "\<exists>r \<in> set (reservations example_store). reservation_id r = 1
              \<and> (status r = Cancelled \<or> status r = Completed)"
    by (simp add: example_store_def)
  have h2: "\<exists>r \<in> set (reservations example_store). reservation_id r = 2
              \<and> status r \<noteq> Cancelled \<and> status r \<noteq> Completed"
    by (simp add: example_store_def)
  have s: "map status (reservations (snd (cancel_reservation example_store 2)))
       = [Completed, Cancelled, Cancelled, NoShow]"
    by (simp add: example_store_def cancel_reservation_def)
  note t = cancel_not_found_is_false [of example_store]
  from t [of 7] d h7 have a: "cancel_reservation example_store 7 = (False, example_store)
   \<and> api_cancel_reservation 7 example_store
       = ((404, ErrorMessage ''reservation not found''), example_store)"
    by blast
  from t [of 0] d h0 have b: "cancel_reservation example_store 0 = (False, example_store)"
    by blast
  from t [of 1] d h1 have c: "api_cancel_reservation 1 example_store
       = ((404, ErrorMessage ''reservation not found''), example_store)"
    by blast
  from t [of 2] d h2 have e: "fst (cancel_reservation example_store 2)
   \<and> cancel_reservation (snd (cancel_reservation example_store 2)) 2
       = (False, snd (cancel_reservation example_store 2))"
    by blast
  from a b c e s show ?thesis by blast
qed

section \<open>Properties of the background monitoring task and of the published snapshot\<close>

lemma monitoring_loop_append:
  "monitoring_loop (xs @ ys) st = monitoring_loop ys (monitoring_loop xs st)"
  by (induction xs arbitrary: st) simp_all

text \<open>
  Claim C3. A failing occupancy read makes the \<^verbatim>\<open>try\<close> block raise. Whenever the block
  raises, in whatever step, the iteration leaves the snapshot as it was, in every field,
  and prints the exception; the loop then runs the following iterations from that same
  snapshot. So after any number of earlier iterations, a failed one leaves the snapshot
  that they published, and the iterations after it are run.
\<close>

theorem failed_tick_keeps_snapshot:
  "(now_jst env = Inr t \<and> occupancy_provider env = Some get_is_occupied
      \<and> get_is_occupied t = Inl e \<longrightarrow> monitoring_try env = Inl e)
   \<and> (monitoring_try env = Inl e \<longrightarrow>
        monitoring_tick env (s, out) = (s, out @ [ErrorInMonitoringTask e])
        \<and> fst (background_monitoring_task s0 (before @ [env]))
            = fst (background_monitoring_task s0 before)
        \<and> background_monitoring_task s0 (before @ env # after)
            = monitoring_loop after
                (fst (background_monitoring_task s0 before),
                 snd (background_monitoring_task s0 before) @ [ErrorInMonitoringTask e]))"
proof (intro conjI impI)
  assume "now_jst env = Inr t \<and> occupancy_provider env = Some get_is_occupied
      \<and> get_is_occupied t = Inl e"
  then show "monitoring_try env = Inl e"
    by (simp add: monitoring_try_def)
next
  assume f: "monitoring_try env = Inl e"
  then have tick: "monitoring_tick env st = (fst st, snd st @ [ErrorInMonitoringTask e])" for st
    by (simp add: monitoring_tick_def)
  from tick [of "(s, out)"]
  show "monitoring_tick env (s, out) = (s, out @ [ErrorInMonitoringTask e])"
    by simp
  show "fst (background_monitoring_task s0 (before @ [env]))
      = fst (background_monitoring_task s0 before)"
    by (simp add: background_monitoring_task_def monitoring_loop_append tick)
  show "background_monitoring_task s0 (before @ env # after)
      = monitoring_loop after
          (fst (background_monitoring_task s0 before),
           snd (background_monitoring_task s0 before) @ [ErrorInMonitoringTask e])"
    by (simp add: background_monitoring_task_def monitoring_loop_append tick)
qed

text \<open>
  The witness: a tick that succeeds, a tick whose occupancy read fails, and a tick that
  succeeds again. The failed tick leaves the snapshot of the first one, and the third one
  is run.
\<close>

theorem failed_tick_keeps_snapshot_witness:
  "monitoring_try example_failing_tick = Inl (OtherException ''camera unavailable'')
   \<and> fst (background_monitoring_task system_status_init [example_tick, example_failing_tick])
       = example_status
   \<and> background_monitoring_task system_status_init
         [example_tick, example_failing_tick, example_tick]
       = (example_status,
          [MonitoringTaskStarted, ErrorInMonitoringTask (OtherException ''camera unavailable'')])"
proof -
  note t = failed_tick_keeps_snapshot [of example_failing_tick "905 * us_per_minute"
      "\<lambda>t. Inl (OtherException ''camera unavailable'')" "OtherException ''camera unavailable''"
      system_status_init "[]" system_status_init "[example_tick]" "[example_tick]"]
  have h: "now_jst example_failing_tick = Inr (905 * us_per_minute)
      \<and> occupancy_provider example_failing_tick
          = Some (\<lambda>t. Inl (OtherException ''camera unavailable''))
      \<and> (\<lambda>t. Inl (OtherException ''camera unavailable'')) (905 * us_per_minute)
          = (Inl (OtherException ''camera unavailable'') :: exn + bool)"
    by (simp add: example_failing_tick_def)
  from t h have f: "monitoring_try example_failing_tick
      = Inl (OtherException ''camera unavailable'')"
    by blast
  have b: "background_monitoring_task system_status_init [example_tick]
      = (example_status, [MonitoringTaskStarted])"
    by (simp add: background_monitoring_task_def monitoring_tick_def monitoring_try_def
          example_tick_def example_state_info_def example_status_def dict_item_def ROOM_ID_def)
  have a: "monitoring_loop [example_tick]
        (example_status,
         [MonitoringTaskStarted, ErrorInMonitoringTask (OtherException ''camera unavailable'')])
      = (example_status,
         [MonitoringTaskStarted, ErrorInMonitoringTask (OtherException ''camera unavailable'')])"
    by (simp add: monitoring_tick_def monitoring_try_def
          example_tick_def example_state_info_def example_status_def dict_item_def ROOM_ID_def)
  from t f have "fst (background_monitoring_task system_status_init
          ([example_tick] @ [example_failing_tick]))
        = fst (background_monitoring_task system_status_init [example_tick])
      \<and> background_monitoring_task system_status_init
          ([example_tick] @ example_failing_tick # [example_tick])
        = monitoring_loop [example_tick]
            (fst (background_monitoring_task system_status_init [example_tick]),
             snd (background_monitoring_task system_status_init [example_tick])
               @ [ErrorInMonitoringTask (OtherException ''camera unavailable'')])"
    by blast
  with f a b show ?thesis by simp
qed

text \<open>
  Claim C6. After a tick that succeeds with the inputs \<open>is_occupied\<close> and \<open>t\<close>, the snapshot
  holds the three values of the engine's output, the formatted \<open>t\<close> as timestamp, the id
  of the monitored room, \<open>is_occupied\<close> as \<open>is_used\<close>, and 1 or 0 as \<open>people_count\<close>.
  GET /api/room_status returns this snapshot, and so does GET / unless the request is a
  browser's (its Accept header contains \<^verbatim>\<open>text/html\<close>), which the hook redirects.
\<close>

theorem successful_tick_publishes_snapshot:
  "now_jst env = Inr t \<and> occupancy_provider env = Some get_is_occupied
     \<and> get_is_occupied t = Inr is_occupied \<and> update_state env is_occupied t = Inr state_info
     \<and> format_jst_iso env t = Inr ts
     \<and> map_of state_info ''state'' = Some st
     \<and> map_of state_info ''reservation_id'' = Some rid
     \<and> map_of state_info ''alert'' = Some al
     \<and> new_status = \<lparr>ss_timestamp = JStr ts, ss_room_id = ROOM_ID, ss_room_state = st,
           ss_people_count = (if is_occupied then 1 else 0), ss_is_used = is_occupied,
           ss_reservation_id = rid, ss_alert = al\<rparr> \<longrightarrow>
   monitoring_try env = Inr new_status
   \<and> fst (monitoring_tick env (s, out)) = new_status
   \<and> serve_status (fst (monitoring_tick env (s, out)))
        \<lparr>gr_path = ''/api/room_status'', gr_accept = acc\<rparr> = Some (200, StatusJson new_status)
   \<and> (\<not> sublist ''text/html'' (case acc of None \<Rightarrow> [] | Some a \<Rightarrow> a) \<longrightarrow>
        serve_status (fst (monitoring_tick env (s, out)))
          \<lparr>gr_path = ''/'', gr_accept = acc\<rparr> = Some (200, StatusJson new_status))"
proof (intro impI)
  assume h: "now_jst env = Inr t \<and> occupancy_provider env = Some get_is_occupied
     \<and> get_is_occupied t = Inr is_occupied \<and> update_state env is_occupied t = Inr state_info
     \<and> format_jst_iso env t = Inr ts
     \<and> map_of state_info ''state'' = Some st
     \<and> map_of state_info ''reservation_id'' = Some rid
     \<and> map_of state_info ''alert'' = Some al
     \<and> new_status = \<lparr>ss_timestamp = JStr ts, ss_room_id = ROOM_ID, ss_room_state = st,
           ss_people_count = (if is_occupied then 1 else 0), ss_is_used = is_occupied,
           ss_reservation_id = rid, ss_alert = al\<rparr>"
  then have ok: "monitoring_try env = Inr new_status"
    by (simp add: monitoring_try_def dict_item_def)
  then have tick: "fst (monitoring_tick env (s, out)) = new_status"
    by (simp add: monitoring_tick_def)
  have api: "serve_status new_status \<lparr>gr_path = ''/api/room_status'', gr_accept = acc\<rparr>
      = Some (200, StatusJson new_status)"
    by (simp add: serve_status_def redirect_browser_to_login_def api_room_status_def)
  have root: "serve_status new_status \<lparr>gr_path = ''/'', gr_accept = acc\<rparr>
      = Some (200, StatusJson new_status)"
    if "\<not> sublist ''text/html'' (case acc of None \<Rightarrow> [] | Some a \<Rightarrow> a)"
    using that by (simp add: serve_status_def redirect_browser_to_login_def index_def)
  from ok tick api root
  show "monitoring_try env = Inr new_status
   \<and> fst (monitoring_tick env (s, out)) = new_status
   \<and> serve_status (fst (monitoring_tick env (s, out)))
        \<lparr>gr_path = ''/api/room_status'', gr_accept = acc\<rparr> = Some (200, StatusJson new_status)
   \<and> (\<not> sublist ''text/html'' (case acc of None \<Rightarrow> [] | Some a \<Rightarrow> a) \<longrightarrow>
        serve_status (fst (monitoring_tick env (s, out)))
          \<lparr>gr_path = ''/'', gr_accept = acc\<rparr> = Some (200, StatusJson new_status))"
    by simp
qed

theorem successful_tick_publishes_snapshot_witness:
  "fst (monitoring_tick example_tick (system_status_init, [MonitoringTaskStarted]))
     = example_status
   \<and> serve_status (fst (monitoring_tick example_tick (system_status_init, [MonitoringTaskStarted])))
        \<lparr>gr_path = ''/api/room_status'', gr_accept = Some ''application/json''\<rparr>
       = Some (200, StatusJson example_status)
   \<and> serve_status (fst (monitoring_tick example_tick (system_status_init, [MonitoringTaskStarted])))
        \<lparr>gr_path = ''/'', gr_accept = Some ''application/json''\<rparr>
       = Some (200, StatusJson example_status)"
proof -
  have h: "now_jst example_tick = Inr (905 * us_per_minute)
     \<and> occupancy_provider example_tick = Some (\<lambda>t. Inr True)
     \<and> (\<lambda>t. Inr True) (905 * us_per_minute) = (Inr True :: exn + bool)
     \<and> update_state example_tick True (905 * us_per_minute) = Inr example_state_info
     \<and> format_jst_iso example_tick (905 * us_per_minute) = Inr ''2025-11-29T15:05:00+09:00''
     \<and> map_of example_state_info ''state'' = Some (JStr ''IN_USE'')
     \<and> map_of example_state_info ''reservation_id'' = Some (JInt 2)
     \<and> map_of example_state_info ''alert'' = Some JNull
     \<and> example_status = \<lparr>ss_timestamp = JStr ''2025-11-29T15:05:00+09:00'',
           ss_room_id = ROOM_ID, ss_room_state = JStr ''IN_USE'',
           ss_people_count = (if True then 1 else 0), ss_is_used = True,
           ss_reservation_id = JInt 2, ss_alert = JNull\<rparr>"
    by (simp add: example_tick_def example_state_info_def example_status_def ROOM_ID_def)
  have n: "\<not> sublist ''text/html''
      (case Some ''application/json'' of None \<Rightarrow> [] | Some a \<Rightarrow> a)"
    by (simp add: sublist_code)
  from successful_tick_publishes_snapshot [of example_tick "905 * us_per_minute"
      "\<lambda>t. Inr True" True example_state_info "''2025-11-29T15:05:00+09:00''"
      "JStr ''IN_USE''" "JInt 2" JNull example_status system_status_init
      "[MonitoringTaskStarted]" "Some ''application/json''"] h n
  show ?thesis by blast
qed

text \<open>
  Claim C7. The snapshot that the module starts with is the Idle state, and it is what
  the task holds before its first iteration and what both routes return then. A tick
  that succeeds replaces the snapshot by the one it has computed from its own inputs,
  whatever the snapshot was before; nothing is read from an earlier run.
\<close>

theorem initial_snapshot_is_idle:
  "system_status_init =
     \<lparr>ss_timestamp = JNull, ss_room_id = ''Room-A'', ss_room_state = JStr ''IDLE'',
      ss_people_count = 0, ss_is_used = False, ss_reservation_id = JNull, ss_alert = JNull\<rparr>
   \<and> background_monitoring_task system_status_init []
       = (system_status_init, [MonitoringTaskStarted])
   \<and> api_room_status system_status_init = (200, StatusJson system_status_init)
   \<and> index system_status_init = (200, StatusJson system_status_init)
   \<and> (monitoring_try env = Inr new_status \<longrightarrow>
        fst (monitoring_tick env (s, out)) = new_status
        \<and> fst (monitoring_tick env (s', out')) = new_status)"
  by (simp add: system_status_init_def ROOM_ID_def background_monitoring_task_def
        api_room_status_def index_def monitoring_tick_def)

theorem initial_snapshot_is_idle_witness:
  "monitoring_try example_tick = Inr example_status
   \<and> fst (monitoring_tick example_tick (system_status_init, [])) = example_status
   \<and> fst (monitoring_tick example_tick (example_status, [])) = example_status"
proof -
  have h: "monitoring_try example_tick = Inr example_status"
    by (simp add: monitoring_try_def example_tick_def example_state_info_def
          example_status_def dict_item_def ROOM_ID_def)
  from initial_snapshot_is_idle [of example_tick example_status system_status_init "[]"
      example_status "[]"] h
  show ?thesis by blast
qed

section \<open>POST /debug/state_params with a float infinity\<close>

text \<open>
  Claim C8 fails on the code. The body
  \<^verbatim>\<open>{"grace_period_sec": 1e999, "cleanup_margin_sec": 7}\<close> is decoded with a float
  infinity for the first key. \<^verbatim>\<open>int\<close> of it raises OverflowError, which
  \<^verbatim>\<open>_int_or_default\<close> does not catch: the request is answered with 500 and
  \<^verbatim>\<open>cleanup_margin_sec\<close>, whose key is present with the integer 7, keeps its previous
  value 300.
\<close>

theorem state_params_overflow_skips_assignments:
  "debug_state_params int_of_str POST
       (JObj [(''grace_period_sec'', JFloat PosInf), (''cleanup_margin_sec'', JInt 7)])
       example_room_manager
     = ((500, InternalServerError OverflowError), example_room_manager)
   \<and> cleanup_margin_sec example_room_manager = 300
   \<and> py_int int_of_str (JInt 7) = Inr 7"
  by (simp add: debug_state_params_def get_json_or_empty_def int_or_default_def
        example_room_manager_def)

text \<open>
  Where no call of \<^verbatim>\<open>_int_or_default\<close> raises, the handler does assign the four values
  that the calls return, and GET returns the four current values.
\<close>

lemma state_params_get:
  "debug_state_params int_of_str GET json rm =
     ((200, StateParamsJson (grace_period_sec rm) (arrival_window_before_sec rm)
              (arrival_window_after_sec rm) (cleanup_margin_sec rm)), rm)"
  by (simp add: debug_state_params_def state_params_json_def)

lemma int_or_default_result:
  "int_or_default int_of_str data key current = Inr n \<Longrightarrow>
     (case subscript data key of
        Inl e \<Rightarrow> n = current
      | Inr v \<Rightarrow> (case py_int int_of_str v of Inl e \<Rightarrow> n = current | Inr m \<Rightarrow> n = m))"
  by (auto simp: int_or_default_def split: sum.splits exn.splits)

lemma state_params_post:
  assumes "int_or_default int_of_str (get_json_or_empty json) ''grace_period_sec''
             (grace_period_sec rm) = Inr g"
    and "int_or_default int_of_str (get_json_or_empty json) ''arrival_window_before_sec''
             (arrival_window_before_sec rm) = Inr b"
    and "int_or_default int_of_str (get_json_or_empty json) ''arrival_window_after_sec''
             (arrival_window_after_sec rm) = Inr a"
    and "int_or_default int_of_str (get_json_or_empty json) ''cleanup_margin_sec''
             (cleanup_margin_sec rm) = Inr c"
  shows "debug_state_params int_of_str POST json rm =
     ((200, StateParamsJson g b a c),
      rm\<lparr>grace_period_sec := g, arrival_window_before_sec := b,
         arrival_window_after_sec := a, cleanup_margin_sec := c\<rparr>)"
  using assms by (simp add: debug_state_params_def state_params_json_def Let_def)

end
